theory Spec2Isabelle
  imports Main
begin

section \<open>JavaScript values\<close>

text \<open>
  The certificate manager reads three kinds of values from its collaborators: strings,
  the value \<open>JSON.parse\<close> decodes from the body of the subscribe response, and the
  errors that a rejected promise or a throwing call hands to a \<open>catch\<close>.

  A string is a \<open>string\<close> whose characters are the code units of the JavaScript string
  (code units below 256). A decoded JSON value is a \<open>json\<close>; the number literals
  represented are the integers of magnitude below \<open>10^21\<close>, which \<open>String\<close> prints in
  decimal. An object holds its own properties, one entry per key. The JavaScript value
  \<open>undefined\<close> is \<open>None\<close> of \<open>json option\<close>.
\<close>

datatype json =
    JNull
  | JBool bool
  | JNum int
  | JStr string
  | JArr "json list"
  | JObj "(string \<times> json) list"

text \<open>
  An error object: the two properties the code reads from one (\<open>err.detail\<close> and
  \<open>err.message\<close>), each \<open>None\<close> when the property is \<open>undefined\<close>.
\<close>

record js_error =
  detail :: "string option"
  message :: "string option"

text \<open>
  The error a property read on \<open>null\<close> or \<open>undefined\<close> raises. Its message is the
  engine's text, shortened here; the code never reads it.
\<close>

definition TypeError :: js_error where
  "TypeError = \<lparr>detail = None, message = Some ''Cannot read properties''\<rparr>"

text \<open>Truthiness, as \<open>if (v)\<close>, \<open>!v\<close> and \<open>a || b\<close> test it.\<close>

fun truthy :: "json option \<Rightarrow> bool" where
  "truthy None = False"
| "truthy (Some JNull) = False"
| "truthy (Some (JBool b)) = b"
| "truthy (Some (JNum n)) = (n \<noteq> 0)"
| "truthy (Some (JStr s)) = (s \<noteq> [])"
| "truthy (Some (JArr xs)) = True"
| "truthy (Some (JObj kvs)) = True"

text \<open>
  Truthiness of the parameter \<open>reclamationToken\<close>, a \<open>string?\<close>: \<open>None\<close> is an absent
  (undefined or null) argument.
\<close>

fun truthy_string :: "string option \<Rightarrow> bool" where
  "truthy_string None = False"
| "truthy_string (Some s) = (s \<noteq> [])"

text \<open>
  The property read \<open>v.k\<close> for the keys the code reads (\<open>error\<close>, \<open>token\<close>, \<open>name\<close>),
  which no prototype of a decoded JSON value defines: it throws on \<open>undefined\<close> and
  \<open>null\<close>, finds an own property of an object, and is \<open>undefined\<close> elsewhere.
\<close>

fun get_prop :: "json option \<Rightarrow> string \<Rightarrow> js_error + json option" where
  "get_prop None k = Inl TypeError"
| "get_prop (Some JNull) k = Inl TypeError"
| "get_prop (Some (JObj kvs)) k = Inr (map_of kvs k)"
| "get_prop (Some (JBool b)) k = Inr None"
| "get_prop (Some (JNum n)) k = Inr None"
| "get_prop (Some (JStr s)) k = Inr None"
| "get_prop (Some (JArr xs)) k = Inr None"

text \<open>Conversion to a string, as a template literal \<open>`${v}`\<close> performs it.\<close>

fun show_nat :: "nat \<Rightarrow> string" where
  "show_nat n =
     (if n < 10 then [''0123456789'' ! n]
      else show_nat (n div 10) @ [''0123456789'' ! (n mod 10)])"

declare show_nat.simps [simp del]

definition show_int :: "int \<Rightarrow> string" where
  "show_int i = (if i < 0 then ''-'' @ show_nat (nat (- i)) else show_nat (nat i))"

fun join_comma :: "string list \<Rightarrow> string" where
  "join_comma [] = []"
| "join_comma [s] = s"
| "join_comma (s # t # ss) = s @ '','' @ join_comma (t # ss)"

fun String :: "json \<Rightarrow> string" where
  "String JNull = ''null''"
| "String (JBool b) = (if b then ''true'' else ''false'')"
| "String (JNum n) = show_int n"
| "String (JStr s) = s"
| "String (JArr xs) = join_comma (map (\<lambda>x. if x = JNull then [] else String x) xs)"
| "String (JObj kvs) = ''[object Object]''"

fun template :: "json option \<Rightarrow> string" where
  "template None = ''undefined''"
| "template (Some v) = String v"

text \<open>\<open>String.prototype.trim\<close>: white space and line terminators below code unit 256.\<close>

definition is_white_space :: "char \<Rightarrow> bool" where
  "is_white_space c =
     (c \<in> set [CHR 0x09, CHR 0x0A, CHR 0x0B, CHR 0x0C, CHR 0x0D, CHR 0x20, CHR 0xA0])"

definition trim :: "string \<Rightarrow> string" where
  "trim s = rev (dropWhile is_white_space (rev (dropWhile is_white_space s)))"

text \<open>
  \<open>s.indexOf(c)\<close> for a one-character search string, and \<open>s.substring(start, end)\<close>:
  each bound is clamped to \<open>0 .. s.length\<close> and the two are swapped when the first is
  the larger.
\<close>

fun indexOf :: "string \<Rightarrow> char \<Rightarrow> int" where
  "indexOf [] c = - 1"
| "indexOf (x # xs) c =
     (if x = c then 0 else (let i = indexOf xs c in if i < 0 then - 1 else i + 1))"

definition clamp_index :: "string \<Rightarrow> int \<Rightarrow> nat" where
  "clamp_index s i = (if i < 0 then 0 else min (nat i) (length s))"

definition substring :: "string \<Rightarrow> int \<Rightarrow> int \<Rightarrow> string" where
  "substring s start stop =
     (let a = clamp_index s start; b = clamp_index s stop
      in take (max a b - min a b) (drop (min a b) s))"

section \<open>Collaborators and effects\<close>

text \<open>
  A promise that has settled. \<open>fetch\<close> resolves with a response whatever its status
  code and rejects only when the request fails; reading the body (\<open>res.text()\<close>) is a
  promise of its own.
\<close>

datatype 'a promise = Rejects js_error | Resolves 'a

record http_response =
  status :: nat
  body_text :: "string promise"

text \<open>The object \<open>le.register\<close> resolves with: the three PEM texts of one issuance.\<close>

record certificates =
  cert :: string
  privkey :: string
  chain :: string

text \<open>
  The outcome of one \<open>fs.writeFileSync\<close>: it returns, or it throws and leaves the file
  as it was (\<open>None\<close>: the file could not be opened) or holding what was written before
  the failure (\<open>Some\<close>).
\<close>

datatype write_result = WriteOk | WriteFails js_error "string option"

text \<open>
  One challenge round of the ACME client: the digest it hands to \<open>leDnsResponse\<close> as
  \<open>keyAuthDigest\<close>, and what the network answers to the request \<open>leDnsResponse\<close> sends.
  (\<open>leDnsResponse\<close> ignores its other two arguments.)
\<close>

record challenge_round =
  keyAuthDigest :: string
  dnsconfig_response :: "http_response promise"

text \<open>The values of the configuration keys \<open>ssltunnel.*\<close> and of \<open>UserProfile.sslDir\<close>.\<close>

record config =
  registration_endpoint :: string
  certemail :: string
  ssltunnel_domain :: string
  sslDir :: string

text \<open>
  The effects are recorded in order. The three call sites of \<open>fetch\<close> are told apart by
  a tag; \<open>callback(v)\<close> is recorded with its argument, and \<open>callback()\<close> and
  \<open>callback(undefined)\<close> hand the callee the same value. Only \<open>console.error\<close> is
  recorded of the logging (the \<open>console.debug\<close> lines under \<open>DEBUG\<close> are not).
\<close>

datatype call_site = Subscribe | DnsConfig | SetEmail

datatype challenge_type = Dns01 | Http01

datatype cb_arg = NoArg | ErrObj js_error | ErrJson json | ErrStr string

datatype event =
    Fetch call_site string
  | SettingsSet string json
  | SettingsGet string
  | AcmeRegister string string challenge_type
  | WriteFile string string
  | LogError string
  | Callback cb_arg

record world =
  settings :: "string \<rightharpoonup> json"
  files :: "string \<rightharpoonup> string"
  trace :: "event list"

definition emit :: "event \<Rightarrow> world \<Rightarrow> world" where
  "emit e w = w\<lparr>trace := trace w @ [e]\<rparr>"

text \<open>What each collaborator of one \<open>register\<close> call answers.\<close>

record register_env =
  subscribe_response :: "http_response promise"
  JSON_parse :: "string \<Rightarrow> js_error + json"
  settings_set :: "unit promise"
  acme_rounds :: "challenge_round list"
  acme_result :: "certificates promise"
  disk :: "string \<Rightarrow> write_result"
  setemail_response :: "http_response promise"

text \<open>What each collaborator of one \<open>renew\<close> call answers.\<close>

record renew_env =
  settings_get :: "json option promise"
  renew_result :: "certificates promise"
  renew_disk :: "string \<Rightarrow> write_result"

text \<open>How a block of an \<open>async\<close> function ends, and how the function itself does.\<close>

datatype flow = Continue | Return | Throw js_error

datatype completion = Returned | Threw js_error

section \<open>The certificate manager\<close>

text \<open>\<open>path.join(dir, name)\<close> for a normalised directory and a plain file name.\<close>

definition path_join :: "string \<Rightarrow> string \<Rightarrow> string" where
  "path_join dir file_name = dir @ ''/'' @ file_name"

definition writeFileSync ::
  "(string \<Rightarrow> write_result) \<Rightarrow> string \<Rightarrow> string \<Rightarrow> world \<Rightarrow> js_error option \<times> world" where
  "writeFileSync dsk path data w =
     (let w1 = emit (WriteFile path data) w in
      case dsk path of
        WriteOk \<Rightarrow> (None, w1\<lparr>files := (files w1)(path \<mapsto> data)\<rparr>)
      | WriteFails e left \<Rightarrow>
          (Some e,
           case left of
             None \<Rightarrow> w1
           | Some part \<Rightarrow> w1\<lparr>files := (files w1)(path \<mapsto> part)\<rparr>))"

definition writeCertificates ::
  "config \<Rightarrow> (string \<Rightarrow> write_result) \<Rightarrow> certificates \<Rightarrow> world \<Rightarrow> js_error option \<times> world" where
  "writeCertificates cfg dsk results w =
     (case writeFileSync dsk (path_join (sslDir cfg) ''certificate.pem'') (cert results) w of
        (Some e, w1) \<Rightarrow> (Some e, w1)
      | (None, w1) \<Rightarrow>
          (case writeFileSync dsk (path_join (sslDir cfg) ''privatekey.pem'') (privkey results) w1 of
             (Some e, w2) \<Rightarrow> (Some e, w2)
           | (None, w2) \<Rightarrow>
               writeFileSync dsk (path_join (sslDir cfg) ''chain.pem'') (chain results) w2))"

subsection \<open>register\<close>

definition dnsconfig_url :: "config \<Rightarrow> json option \<Rightarrow> string \<Rightarrow> string" where
  "dnsconfig_url cfg token digest =
     registration_endpoint cfg @ ''/dnsconfig?token='' @ template token @ ''&challenge='' @ digest"

definition dns_failed :: "js_error \<Rightarrow> world \<Rightarrow> world" where
  "dns_failed e w =
     emit (Callback (ErrObj e))
       (emit (LogError ''Failed to set DNS token on registration server:'') w)"

definition leDnsResponse ::
  "config \<Rightarrow> json option \<Rightarrow> challenge_round \<Rightarrow> world \<Rightarrow> string promise \<times> world" where
  "leDnsResponse cfg token r w =
     (let w1 = emit (Fetch DnsConfig (dnsconfig_url cfg token (keyAuthDigest r))) w in
      case dnsconfig_response r of
        Rejects e \<Rightarrow> (Rejects e, dns_failed e w1)
      | Resolves res \<Rightarrow>
          (case body_text res of
             Rejects e \<Rightarrow> (Rejects e, dns_failed e w1)
           | Resolves body \<Rightarrow> (Resolves ''Success!'', w1)))"

text \<open>
  \<open>le.register\<close> with the \<open>dns-01\<close> challenge: the ACME client calls \<open>leDnsResponse\<close>
  once per challenge round, then settles with the certificates or an error.
\<close>

fun challenge_rounds ::
  "config \<Rightarrow> json option \<Rightarrow> challenge_round list \<Rightarrow> world \<Rightarrow> world" where
  "challenge_rounds cfg token [] w = w"
| "challenge_rounds cfg token (r # rs) w =
     challenge_rounds cfg token rs (snd (leDnsResponse cfg token r w))"

definition le_register_dns ::
  "config \<Rightarrow> register_env \<Rightarrow> json option \<Rightarrow> string \<Rightarrow> world \<Rightarrow> certificates promise \<times> world" where
  "le_register_dns cfg env token fulldomain w =
     (acme_result env,
      challenge_rounds cfg token (acme_rounds env)
        (emit (AcmeRegister fulldomain (certemail cfg) Dns01) w))"

definition subscribe_url :: "config \<Rightarrow> string \<Rightarrow> string option \<Rightarrow> string \<Rightarrow> string" where
  "subscribe_url cfg email reclamationToken subdomain =
     registration_endpoint cfg @ ''/subscribe?name='' @ subdomain @ ''&email='' @ email @
     (case reclamationToken of
        None \<Rightarrow> []
      | Some t \<Rightarrow> if t = [] then [] else ''&reclamationToken='' @ trim t)"

definition subscribe_failed :: "js_error \<Rightarrow> world \<Rightarrow> world" where
  "subscribe_failed e w = emit (Callback (ErrObj e)) (emit (LogError ''Failed to subscribe:'') w)"

definition callback_with :: "json option \<Rightarrow> cb_arg" where
  "callback_with v = (case v of None \<Rightarrow> NoArg | Some j \<Rightarrow> ErrJson j)"

text \<open>
  The first \<open>try\<close> block of \<open>register\<close>: \<open>None\<close> when the function has returned,
  \<open>Some token\<close> when it goes on with \<open>token = jsonToken.token\<close>.
\<close>

definition subscribe ::
  "config \<Rightarrow> register_env \<Rightarrow> string \<Rightarrow> string option \<Rightarrow> string \<Rightarrow> world
     \<Rightarrow> json option option \<times> world" where
  "subscribe cfg env email reclamationToken subdomain w =
     (let w1 = emit (Fetch Subscribe (subscribe_url cfg email reclamationToken subdomain)) w in
      case subscribe_response env of
        Rejects e \<Rightarrow> (None, subscribe_failed e w1)
      | Resolves res \<Rightarrow>
          (case body_text res of
             Rejects e \<Rightarrow> (None, subscribe_failed e w1)
           | Resolves body \<Rightarrow>
               (case JSON_parse env body of
                  Inl e \<Rightarrow> (None, subscribe_failed e w1)
                | Inr jsonToken \<Rightarrow>
                    (case get_prop (Some jsonToken) ''error'' of
                       Inl e \<Rightarrow> (None, subscribe_failed e w1)
                     | Inr err \<Rightarrow>
                         if truthy err then (None, emit (Callback (callback_with err)) w1)
                         else
                           (case get_prop (Some jsonToken) ''token'' of
                              Inl e \<Rightarrow> (None, subscribe_failed e w1)
                            | Inr token \<Rightarrow>
                                (let w2 = emit (SettingsSet ''tunneltoken'' jsonToken) w1 in
                                 case settings_set env of
                                   Rejects e \<Rightarrow> (None, subscribe_failed e w2)
                                 | Resolves u \<Rightarrow>
                                     (Some token,
                                      w2\<lparr>settings :=
                                          (settings w2)(''tunneltoken'' \<mapsto> jsonToken)\<rparr>)))))))"

definition setemail_url :: "config \<Rightarrow> json option \<Rightarrow> string \<Rightarrow> bool \<Rightarrow> string" where
  "setemail_url cfg token email optout =
     registration_endpoint cfg @ ''/setemail?token='' @ template token @ ''&email='' @ email @
     ''&optout='' @ (if optout then ''true'' else ''false'')"

definition associate_email ::
  "config \<Rightarrow> register_env \<Rightarrow> json option \<Rightarrow> string \<Rightarrow> bool \<Rightarrow> world \<Rightarrow> flow \<times> world" where
  "associate_email cfg env token email optout w =
     (let w1 = emit (Fetch SetEmail (setemail_url cfg token email optout)) w in
      case setemail_response env of
        Rejects e \<Rightarrow>
          (Return, emit (Callback (ErrObj e)) (emit (LogError ''Failed to set email on server:'') w1))
      | Resolves res \<Rightarrow> (Continue, w1))"

text \<open>
  \<open>err.detail || err.message.substring(0, err.message.indexOf('\n'))\<close>: the right
  operand is evaluated when \<open>err.detail\<close> is falsy, and throws when \<open>err.message\<close> is
  \<open>undefined\<close>.
\<close>

definition message_first_line :: "js_error \<Rightarrow> js_error + string" where
  "message_first_line err =
     (case message err of
        None \<Rightarrow> Inl TypeError
      | Some m \<Rightarrow> Inr (substring m 0 (indexOf m (CHR 0x0A))))"

definition registration_error_text :: "js_error \<Rightarrow> js_error + string" where
  "registration_error_text err =
     (case detail err of
        None \<Rightarrow> message_first_line err
      | Some d \<Rightarrow> if d = [] then message_first_line err else Inr d)"

text \<open>The handler \<open>catch (err)\<close> of the second \<open>try\<close> block: it does not return.\<close>

definition registration_failed :: "js_error \<Rightarrow> world \<Rightarrow> flow \<times> world" where
  "registration_failed err w =
     (let w1 = emit (LogError ''Registration failed:'') w in
      case registration_error_text err of
        Inl e \<Rightarrow> (Throw e, w1)
      | Inr s \<Rightarrow> (Continue, emit (Callback (ErrStr s)) w1))"

text \<open>The second \<open>try\<close> block of \<open>register\<close> with its handler.\<close>

definition issue_and_store ::
  "config \<Rightarrow> register_env \<Rightarrow> json option \<Rightarrow> string \<Rightarrow> string option \<Rightarrow> string \<Rightarrow> bool
     \<Rightarrow> world \<Rightarrow> flow \<times> world" where
  "issue_and_store cfg env token email reclamationToken fulldomain optout w =
     (case le_register_dns cfg env token fulldomain w of
        (Rejects err, w1) \<Rightarrow> registration_failed err w1
      | (Resolves results, w1) \<Rightarrow>
          (case writeCertificates cfg (disk env) results w1 of
             (Some err, w2) \<Rightarrow> registration_failed err w2
           | (None, w2) \<Rightarrow>
               if \<not> truthy_string reclamationToken
               then associate_email cfg env token email optout w2
               else (Continue, w2)))"

definition register ::
  "config \<Rightarrow> register_env \<Rightarrow> string \<Rightarrow> string option \<Rightarrow> string \<Rightarrow> string \<Rightarrow> bool
     \<Rightarrow> world \<Rightarrow> completion \<times> world" where
  "register cfg env email reclamationToken subdomain fulldomain optout w =
     (case subscribe cfg env email reclamationToken subdomain w of
        (None, w1) \<Rightarrow> (Returned, w1)
      | (Some token, w1) \<Rightarrow>
          (case issue_and_store cfg env token email reclamationToken fulldomain optout w1 of
             (Return, w2) \<Rightarrow> (Returned, w2)
           | (Throw e, w2) \<Rightarrow> (Threw e, w2)
           | (Continue, w2) \<Rightarrow> (Returned, emit (Callback NoArg) w2)))"

subsection \<open>renew\<close>

definition renew :: "config \<Rightarrow> renew_env \<Rightarrow> world \<Rightarrow> completion \<times> world" where
  "renew cfg env w =
     (let w0 = emit (SettingsGet ''tunneltoken'') w in
      case settings_get env of
        Rejects e \<Rightarrow> (Returned, emit (LogError ''Tunnel token not set!'') w0)
      | Resolves tunnelToken \<Rightarrow>
          (case get_prop tunnelToken ''name'' of
             Inl e \<Rightarrow> (Threw e, w0)
           | Inr nm \<Rightarrow>
               (let domain = template nm @ ''.'' @ ssltunnel_domain cfg;
                    w1 = emit (AcmeRegister domain (certemail cfg) Http01) w0 in
                case renew_result env of
                  Rejects err \<Rightarrow> (Returned, emit (LogError ''Renewal failed:'') w1)
                | Resolves results \<Rightarrow>
                    (case writeCertificates cfg (renew_disk env) results w1 of
                       (Some err, w2) \<Rightarrow> (Returned, emit (LogError ''Renewal failed:'') w2)
                     | (None, w2) \<Rightarrow> (Returned, w2)))))"

section \<open>The rule store\<close>

text \<open>
  The table \<open>rules (id INTEGER PRIMARY KEY, description TEXT)\<close> is the list of its rows.
  The database and the functions \<open>getRules\<close> calls on a description are collaborators:
  whether \<open>db.all\<close> and each \<open>db.run\<close> fail, \<open>JSON.parse\<close> and \<open>JSON.stringify\<close> on the
  type \<open>'d\<close> of descriptions, and \<open>DatabaseMigrate.migrate\<close>, whose falsy result (nothing
  to migrate) is \<open>None\<close>.
\<close>

type_synonym rules_table = "(int \<times> string) list"

record 'd rules_env =
  db_all_error :: "js_error option"
  db_run_error :: "int \<Rightarrow> string \<Rightarrow> js_error option"
  parse_description :: "string \<Rightarrow> js_error + 'd"
  stringify :: "'d \<Rightarrow> string"
  migrate :: "'d \<Rightarrow> 'd option"

text \<open>
  How the promise \<open>getRules\<close> returns ends: resolved, rejected, or never settled (an
  exception escaped the \<open>db.all\<close> callback, or \<open>Promise.all\<close> rejected and nothing
  handles it).
\<close>

datatype 'a settled = Resolved 'a | Rejected js_error | Pending

fun is_resolved :: "'a promise \<Rightarrow> bool" where
  "is_resolved (Resolves x) = True"
| "is_resolved (Rejects e) = False"

text \<open>\<open>UPDATE rules SET description = ? WHERE id = ?\<close>\<close>

definition updateRule ::
  "'d rules_env \<Rightarrow> int \<Rightarrow> 'd \<Rightarrow> rules_table \<Rightarrow> unit promise \<times> rules_table" where
  "updateRule env rid desc tbl =
     (case db_run_error env rid (stringify env desc) of
        Some e \<Rightarrow> (Rejects e, tbl)
      | None \<Rightarrow>
          (Resolves (),
           map (\<lambda>(i, d). if i = rid then (i, stringify env desc) else (i, d)) tbl))"

text \<open>
  The loop \<open>for (const row of rows)\<close> over the rows read, with the object \<open>rules\<close>, the
  list \<open>updatePromises\<close> and the table the updates issued so far have left. The first
  component is the exception a \<open>JSON.parse\<close> threw, if one did.
\<close>

fun migrate_rows ::
  "'d rules_env \<Rightarrow> rules_table \<Rightarrow> (int \<rightharpoonup> 'd) \<times> unit promise list \<times> rules_table
     \<Rightarrow> js_error option \<times> (int \<rightharpoonup> 'd) \<times> unit promise list \<times> rules_table" where
  "migrate_rows env [] st = (None, st)"
| "migrate_rows env ((rid, description) # rows) (rules, updatePromises, tbl) =
     (case parse_description env description of
        Inl e \<Rightarrow> (Some e, (rules, updatePromises, tbl))
      | Inr desc \<Rightarrow>
          (case migrate env desc of
             Some updatedDesc \<Rightarrow>
               (case updateRule env rid updatedDesc tbl of
                  (p, tbl') \<Rightarrow>
                    migrate_rows env rows
                      (rules(rid \<mapsto> updatedDesc), updatePromises @ [p], tbl'))
           | None \<Rightarrow> migrate_rows env rows (rules(rid \<mapsto> desc), updatePromises, tbl)))"

definition getRules :: "'d rules_env \<Rightarrow> rules_table \<Rightarrow> (int \<rightharpoonup> 'd) settled \<times> rules_table" where
  "getRules env tbl =
     (case db_all_error env of
        Some err \<Rightarrow> (Rejected err, tbl)
      | None \<Rightarrow>
          (case migrate_rows env tbl (Map.empty, [], tbl) of
             (Some e, (rules, updatePromises, tbl')) \<Rightarrow> (Pending, tbl')
           | (None, (rules, updatePromises, tbl')) \<Rightarrow>
               if list_all is_resolved updatePromises then (Resolved rules, tbl')
               else (Pending, tbl')))"

section \<open>Observations and example inputs\<close>

text \<open>The URLs one call site fetched, and the arguments the callback was called with.\<close>

fun fetches :: "call_site \<Rightarrow> event list \<Rightarrow> string list" where
  "fetches site [] = []"
| "fetches site (Fetch s u # es) = (if s = site then u # fetches site es else fetches site es)"
| "fetches site (e # es) = fetches site es"

fun callbacks :: "event list \<Rightarrow> cb_arg list" where
  "callbacks [] = []"
| "callbacks (Callback a # es) = a # callbacks es"
| "callbacks (e # es) = callbacks es"

text \<open>The content of one of the three artifacts in the certificate directory.\<close>

definition artifact :: "config \<Rightarrow> world \<Rightarrow> string \<Rightarrow> string option" where
  "artifact cfg w file_name = files w (path_join (sslDir cfg) file_name)"

text \<open>
  The all-or-nothing property of a write of \<open>results\<close> that leads from \<open>w\<close> to \<open>w'\<close>:
  all three artifacts hold the new certificates, or all three are as before.
\<close>

definition all_or_nothing :: "config \<Rightarrow> certificates \<Rightarrow> world \<Rightarrow> world \<Rightarrow> bool" where
  "all_or_nothing cfg results w w' =
     ((artifact cfg w' ''certificate.pem'' = Some (cert results) \<and>
       artifact cfg w' ''privatekey.pem'' = Some (privkey results) \<and>
       artifact cfg w' ''chain.pem'' = Some (chain results)) \<or>
      (artifact cfg w' ''certificate.pem'' = artifact cfg w ''certificate.pem'' \<and>
       artifact cfg w' ''privatekey.pem'' = artifact cfg w ''privatekey.pem'' \<and>
       artifact cfg w' ''chain.pem'' = artifact cfg w ''chain.pem''))"

definition round_ok :: "challenge_round \<Rightarrow> bool" where
  "round_ok r =
     (case dnsconfig_response r of
        Rejects e \<Rightarrow> False
      | Resolves res \<Rightarrow> is_resolved (body_text res))"

definition example_config :: config where
  "example_config =
     \<lparr>registration_endpoint = ''https://api.example.com'', certemail = ''certs@example.com'',
      ssltunnel_domain = ''example.com'', sslDir = ''/ssl''\<rparr>"

definition empty_world :: world where
  "empty_world = \<lparr>settings = Map.empty, files = Map.empty, trace = []\<rparr>"

definition old_world :: world where
  "old_world =
     \<lparr>settings = Map.empty,
      files = [''/ssl/certificate.pem'' \<mapsto> ''old cert'', ''/ssl/privatekey.pem'' \<mapsto> ''old key'',
               ''/ssl/chain.pem'' \<mapsto> ''old chain''],
      trace = []\<rparr>"

definition new_certificates :: certificates where
  "new_certificates = \<lparr>cert = ''new cert'', privkey = ''new key'', chain = ''new chain''\<rparr>"

definition example_parse :: "string \<Rightarrow> js_error + json" where
  \<open>example_parse s =
     (if s = ''{"token":"abc123"}'' then Inr (JObj [(''token'', JStr ''abc123'')])
      else if s = ''{"error":"","token":"abc123"}''
        then Inr (JObj [(''error'', JStr []), (''token'', JStr ''abc123'')])
      else if s = ''{"error":"name taken"}'' then Inr (JObj [(''error'', JStr ''name taken'')])
      else Inl \<lparr>detail = None, message = Some ''Unexpected token''\<rparr>)\<close>

definition network_down :: js_error where
  "network_down = \<lparr>detail = None, message = Some ''request failed, reason: ECONNREFUSED''\<rparr>"

definition ok_response :: "string \<Rightarrow> http_response promise" where
  "ok_response body = Resolves \<lparr>status = 200, body_text = Resolves body\<rparr>"

definition disk_ok :: "string \<Rightarrow> write_result" where
  "disk_ok path = WriteOk"

definition key_write_fails :: "string \<Rightarrow> write_result" where
  "key_write_fails path =
     (if path = ''/ssl/privatekey.pem''
      then WriteFails \<lparr>detail = None, message = Some ''EACCES: permission denied''\<rparr> None
      else WriteOk)"

definition one_round :: "challenge_round list" where
  "one_round = [\<lparr>keyAuthDigest = ''digest-1'', dnsconfig_response = ok_response []\<rparr>]"

text \<open>Every collaborator succeeds; the registrar answers \<open>{"token":"abc123"}\<close>.\<close>

definition all_ok_env :: register_env where
  \<open>all_ok_env =
     \<lparr>subscribe_response = ok_response ''{"token":"abc123"}'',
      JSON_parse = example_parse,
      settings_set = Resolves (),
      acme_rounds = one_round,
      acme_result = Resolves new_certificates,
      disk = disk_ok,
      setemail_response = ok_response []\<rparr>\<close>

definition write_outcome :: "config \<Rightarrow> (string \<Rightarrow> write_result) \<Rightarrow> string \<Rightarrow> write_result" where
  "write_outcome cfg dsk file_name = dsk (path_join (sslDir cfg) file_name)"

text \<open>\<open>Settings.get\<close> rejects: no tunnel token is stored.\<close>

definition no_token_env :: renew_env where
  "no_token_env =
     \<lparr>settings_get = Rejects \<lparr>detail = None, message = Some ''Setting not found''\<rparr>,
      renew_result = Resolves new_certificates, renew_disk = disk_ok\<rparr>"

text \<open>Every collaborator succeeds but the ACME client, whose \<open>le.register\<close> rejects.\<close>

definition acme_fails_env :: register_env where
  "acme_fails_env =
     all_ok_env\<lparr>acme_result :=
       Rejects \<lparr>detail = None,
                message = Some (''rate limited'' @ [CHR 0x0A] @ ''retry after one hour'')\<rparr>\<rparr>"

text \<open>The subscribe response carries an \<open>error\<close> field that is the empty string.\<close>

definition empty_error_env :: register_env where
  \<open>empty_error_env =
     all_ok_env\<lparr>subscribe_response := ok_response ''{"error":"","token":"abc123"}''\<rparr>\<close>

text \<open>The registrar refuses the name.\<close>

definition name_taken_env :: register_env where
  \<open>name_taken_env = all_ok_env\<lparr>subscribe_response := ok_response ''{"error":"name taken"}''\<rparr>\<close>

text \<open>Every collaborator succeeds but the \<open>setemail\<close> request, which fails.\<close>

definition setemail_fails_env :: register_env where
  "setemail_fails_env = all_ok_env\<lparr>setemail_response := Rejects network_down\<rparr>"

text \<open>
  A rule store whose descriptions carry a version: version 1 migrates to version 2,
  version 2 is current.
\<close>

definition example_rules_env :: "json rules_env" where
  \<open>example_rules_env =
     \<lparr>db_all_error = None,
      db_run_error = (\<lambda>rid s. None),
      parse_description =
        (\<lambda>s. if s = ''{"v":1}'' then Inr (JObj [(''v'', JNum 1)])
             else if s = ''{"v":2}'' then Inr (JObj [(''v'', JNum 2)])
             else Inl \<lparr>detail = None, message = Some ''Unexpected token''\<rparr>),
      stringify = (\<lambda>d. if d = JObj [(''v'', JNum 1)] then ''{"v":1}'' else ''{"v":2}''),
      migrate = (\<lambda>d. if d = JObj [(''v'', JNum 1)] then Some (JObj [(''v'', JNum 2)]) else None)\<rparr>\<close>

definition example_rules :: rules_table where
  \<open>example_rules = [(1, ''{"v":1}''), (2, ''{"v":2}'')]\<close>

text \<open>
  The events one challenge round and one call of \<open>writeCertificates\<close> add to the trace:
  what each leaves when started on an empty trace.
\<close>

definition round_events :: "config \<Rightarrow> json option \<Rightarrow> challenge_round \<Rightarrow> event list" where
  "round_events cfg token r = trace (snd (leDnsResponse cfg token r empty_world))"

definition write_events :: "config \<Rightarrow> (string \<Rightarrow> write_result) \<Rightarrow> certificates \<Rightarrow> event list" where
  "write_events cfg dsk results = trace (snd (writeCertificates cfg dsk results empty_world))"

section \<open>Basic facts\<close>

lemma trace_emit [simp]: "trace (emit e w) = trace w @ [e]"
  and files_emit [simp]: "files (emit e w) = files w"
  and settings_emit [simp]: "settings (emit e w) = settings w"
  by (simp_all add: emit_def)

lemma path_join_eq [simp]: "path_join d a = path_join d b \<longleftrightarrow> a = b"
  by (simp add: path_join_def)

lemma fetches_append [simp]: "fetches site (xs @ ys) = fetches site xs @ fetches site ys"
  by (induction site xs rule: fetches.induct) simp_all

lemma callbacks_append [simp]: "callbacks (xs @ ys) = callbacks xs @ callbacks ys"
  by (induction xs rule: callbacks.induct) simp_all

lemmas run_defs =
  register_def subscribe_def issue_and_store_def le_register_dns_def leDnsResponse_def
  registration_failed_def registration_error_text_def message_first_line_def associate_email_def
  writeCertificates_def writeFileSync_def subscribe_failed_def dns_failed_def callback_with_def
  emit_def Let_def substring_def clamp_index_def subscribe_url_def dnsconfig_url_def
  setemail_url_def path_join_def

lemmas example_defs =
  all_ok_env_def example_config_def empty_world_def one_round_def ok_response_def example_parse_def
  new_certificates_def disk_ok_def

subsection \<open>Challenge rounds\<close>

lemma leDnsResponse_world:
  "snd (leDnsResponse cfg token r w) = w\<lparr>trace := trace w @ round_events cfg token r\<rparr>"
  by (simp add: leDnsResponse_def round_events_def dns_failed_def emit_def empty_world_def Let_def
      split: promise.splits)

lemma challenge_rounds_world:
  "challenge_rounds cfg token rs w =
     w\<lparr>trace := trace w @ concat (map (round_events cfg token) rs)\<rparr>"
  by (induction rs arbitrary: w) (simp_all add: leDnsResponse_world)

lemma round_events_fetches:
  "fetches site (round_events cfg token r) =
     (if site = DnsConfig then [dnsconfig_url cfg token (keyAuthDigest r)] else [])"
  by (simp add: leDnsResponse_def round_events_def dns_failed_def emit_def empty_world_def Let_def
      split: promise.splits)

lemma round_events_callbacks: "NoArg \<notin> set (callbacks (round_events cfg token r))"
  by (simp add: leDnsResponse_def round_events_def dns_failed_def emit_def empty_world_def Let_def
      split: promise.splits)

lemma round_events_ok:
  "round_ok r \<Longrightarrow>
   round_events cfg token r = [Fetch DnsConfig (dnsconfig_url cfg token (keyAuthDigest r))]"
  by (auto simp: leDnsResponse_def round_events_def round_ok_def emit_def empty_world_def Let_def
      split: promise.splits)

lemma rounds_fetches:
  "fetches site (concat (map (round_events cfg token) rs)) =
     (if site = DnsConfig then map (\<lambda>r. dnsconfig_url cfg token (keyAuthDigest r)) rs else [])"
  by (induction rs) (simp_all add: round_events_fetches)

lemma rounds_callbacks: "NoArg \<notin> set (callbacks (concat (map (round_events cfg token) rs)))"
  by (induction rs) (simp_all add: round_events_callbacks)

lemma rounds_ok:
  "list_all round_ok rs \<Longrightarrow>
   concat (map (round_events cfg token) rs) =
     map (\<lambda>r. Fetch DnsConfig (dnsconfig_url cfg token (keyAuthDigest r))) rs"
  by (induction rs) (simp_all add: round_events_ok)

subsection \<open>The steps of register\<close>

lemma writeCertificates_world:
  "writeCertificates cfg dsk results w = (r, w') \<Longrightarrow>
     trace w' = trace w @ write_events cfg dsk results \<and> settings w' = settings w"
  by (auto simp: writeCertificates_def writeFileSync_def write_events_def empty_world_def Let_def
      split: write_result.splits option.splits)

lemma write_events_silent [simp]:
  "fetches site (write_events cfg dsk results) = []"
  "callbacks (write_events cfg dsk results) = []"
  by (auto simp: writeCertificates_def writeFileSync_def write_events_def empty_world_def Let_def
      split: write_result.splits option.splits)

lemma writeCertificates_ok:
  assumes "write_outcome cfg dsk ''certificate.pem'' = WriteOk"
    and "write_outcome cfg dsk ''privatekey.pem'' = WriteOk"
    and "write_outcome cfg dsk ''chain.pem'' = WriteOk"
  shows "writeCertificates cfg dsk results w =
           (None,
            w\<lparr>files := (files w)
                 (path_join (sslDir cfg) ''certificate.pem'' \<mapsto> cert results,
                  path_join (sslDir cfg) ''privatekey.pem'' \<mapsto> privkey results,
                  path_join (sslDir cfg) ''chain.pem'' \<mapsto> chain results),
              trace := trace w @
                 [WriteFile (path_join (sslDir cfg) ''certificate.pem'') (cert results),
                  WriteFile (path_join (sslDir cfg) ''privatekey.pem'') (privkey results),
                  WriteFile (path_join (sslDir cfg) ''chain.pem'') (chain results)]\<rparr>)"
  using assms
  by (simp add: writeCertificates_def writeFileSync_def write_outcome_def emit_def)

lemma subscribe_Some:
  assumes "subscribe cfg env email recl subdomain w = (Some token, w1)"
  shows "files w1 = files w" and "callbacks (trace w1) = callbacks (trace w)"
  using assms
  by (auto simp: subscribe_def subscribe_failed_def emit_def Let_def
      split: promise.splits sum.splits if_splits)

lemma subscribe_fetches:
  "site \<noteq> Subscribe \<Longrightarrow>
   fetches site (trace (snd (subscribe cfg env email recl subdomain w))) = fetches site (trace w)"
  by (auto simp: subscribe_def subscribe_failed_def Let_def
      split: promise.splits sum.splits if_splits)

lemma issue_and_store_fetches_dns:
  "fetches DnsConfig (trace (snd (issue_and_store cfg env token email recl fulldomain optout w))) =
     fetches DnsConfig (trace w) @
     map (\<lambda>r. dnsconfig_url cfg token (keyAuthDigest r)) (acme_rounds env)"
  by (auto simp: issue_and_store_def le_register_dns_def registration_failed_def
      associate_email_def challenge_rounds_world rounds_fetches Let_def
      split: promise.splits prod.splits option.splits sum.splits
      dest!: writeCertificates_world)

lemma issue_and_store_no_setemail:
  "truthy_string recl \<Longrightarrow>
   fetches SetEmail (trace (snd (issue_and_store cfg env token email recl fulldomain optout w))) =
     fetches SetEmail (trace w)"
  by (auto simp: issue_and_store_def le_register_dns_def registration_failed_def
      challenge_rounds_world rounds_fetches Let_def
      split: promise.splits prod.splits option.splits sum.splits
      dest!: writeCertificates_world)

lemma register_snd:
  "snd (register cfg env email recl subdomain fulldomain optout w) =
     (case subscribe cfg env email recl subdomain w of
        (None, w1) \<Rightarrow> w1
      | (Some token, w1) \<Rightarrow>
          (case issue_and_store cfg env token email recl fulldomain optout w1 of
             (Continue, w2) \<Rightarrow> emit (Callback NoArg) w2
           | (fl, w2) \<Rightarrow> w2))"
  by (simp add: register_def split: prod.splits option.splits flow.splits)

subsection \<open>The rows of the rule store\<close>

lemma in_updated_rows:
  "(i, d) \<in> set (map (\<lambda>(j, c). if j = rid then (j, s) else (j, c)) tbl) \<longleftrightarrow>
     (i \<noteq> rid \<and> (i, d) \<in> set tbl) \<or> (i = rid \<and> d = s \<and> rid \<in> fst ` set tbl)"
  by (induction tbl) (auto split: if_splits)

lemma updateRule_resolved:
  assumes "updateRule env rid desc tbl = (p, tbl')" and "is_resolved p"
  shows "tbl' = map (\<lambda>(j, c). if j = rid then (j, stringify env desc) else (j, c)) tbl"
  using assms by (auto simp: updateRule_def split: option.splits)

lemma migrate_rows_resolved:
  assumes "migrate_rows env rows (rules, ups, tbl) = (None, (rules', ups', tbl'))"
    and "list_all is_resolved ups'"
    and "distinct (map fst rows)"
  shows "list_all is_resolved ups \<and>
         (\<forall>rid description. (rid, description) \<in> set rows \<and> (rid, description) \<in> set tbl \<longrightarrow>
            (\<exists>desc. parse_description env description = Inr desc \<and>
               (case migrate env desc of
                  None \<Rightarrow> rules' rid = Some desc \<and> (rid, description) \<in> set tbl'
                | Some u \<Rightarrow> rules' rid = Some u \<and> (rid, stringify env u) \<in> set tbl'))) \<and>
         (\<forall>i. i \<notin> fst ` set rows \<longrightarrow> rules' i = rules i) \<and>
         (\<forall>i d. i \<notin> fst ` set rows \<longrightarrow> ((i, d) \<in> set tbl' \<longleftrightarrow> (i, d) \<in> set tbl))"
  using assms
proof (induction rows arbitrary: rules ups tbl)
  case Nil
  then show ?case by simp
next
  case (Cons row rows)
  obtain rid description where row: "row = (rid, description)"
    by (cases row)
  from Cons.prems(1) row obtain desc where parse: "parse_description env description = Inr desc"
    by (auto split: sum.splits)
  from Cons.prems(3) row have fresh: "rid \<notin> fst ` set rows" and dist: "distinct (map fst rows)"
    by auto
  show ?case
  proof (cases "migrate env desc")
    case None
    with Cons.prems(1) row parse
    have rec: "migrate_rows env rows (rules(rid \<mapsto> desc), ups, tbl) = (None, (rules', ups', tbl'))"
      by simp
    note ih = Cons.IH [OF rec Cons.prems(2) dist]
    from ih fresh have head: "rules' rid = Some desc"
      and keep: "\<And>d. (rid, d) \<in> set tbl' \<longleftrightarrow> (rid, d) \<in> set tbl"
      by auto
    from ih have res: "list_all is_resolved ups"
      by blast
    have part2: "\<exists>desc. parse_description env c = Inr desc \<and>
               (case migrate env desc of
                  None \<Rightarrow> rules' i = Some desc \<and> (i, c) \<in> set tbl'
                | Some u \<Rightarrow> rules' i = Some u \<and> (i, stringify env u) \<in> set tbl')"
      if mem: "(i, c) \<in> set (row # rows)" and intbl: "(i, c) \<in> set tbl" for i c
    proof (cases "(i, c) = row")
      case True
      with row have "i = rid" "c = description" by auto
      then show ?thesis
        using parse None head keep intbl by simp
    next
      case False
      with mem have in_rows: "(i, c) \<in> set rows" by simp
      with ih intbl show ?thesis by blast
    qed
    have part3: "rules' i = rules i" if "i \<notin> fst ` set (row # rows)" for i
      using that ih row by auto
    have part4: "(i, d) \<in> set tbl' \<longleftrightarrow> (i, d) \<in> set tbl" if "i \<notin> fst ` set (row # rows)" for i d
      using that ih row by auto
    from res part2 part3 part4 show ?thesis by blast
  next
    case (Some u)
    obtain p tbl1 where upd: "updateRule env rid u tbl = (p, tbl1)"
      by (cases "updateRule env rid u tbl")
    with Cons.prems(1) row parse Some
    have rec: "migrate_rows env rows (rules(rid \<mapsto> u), ups @ [p], tbl1) = (None, (rules', ups', tbl'))"
      by simp
    note ih = Cons.IH [OF rec Cons.prems(2) dist]
    from ih have res: "list_all is_resolved ups" and "is_resolved p"
      by auto
    with upd have tbl1: "tbl1 = map (\<lambda>(j, c). if j = rid then (j, stringify env u) else (j, c)) tbl"
      by (simp add: updateRule_resolved)
    from ih fresh have head: "rules' rid = Some u"
      and keep: "\<And>d. (rid, d) \<in> set tbl' \<longleftrightarrow> (rid, d) \<in> set tbl1"
      by auto
    have part2: "\<exists>desc. parse_description env c = Inr desc \<and>
               (case migrate env desc of
                  None \<Rightarrow> rules' i = Some desc \<and> (i, c) \<in> set tbl'
                | Some u \<Rightarrow> rules' i = Some u \<and> (i, stringify env u) \<in> set tbl')"
      if mem: "(i, c) \<in> set (row # rows)" and intbl: "(i, c) \<in> set tbl" for i c
    proof (cases "(i, c) = row")
      case True
      with row have "i = rid" "c = description" by auto
      moreover have "(rid, stringify env u) \<in> set tbl1"
        using intbl \<open>i = rid\<close> unfolding tbl1 in_updated_rows by force
      ultimately show ?thesis
        using parse Some head keep by simp
    next
      case False
      with mem have in_rows: "(i, c) \<in> set rows" by simp
      with fresh have "i \<noteq> rid" by force
      with intbl have "(i, c) \<in> set tbl1"
        unfolding tbl1 in_updated_rows by simp
      with ih in_rows show ?thesis by blast
    qed
    have part3: "rules' i = rules i" if "i \<notin> fst ` set (row # rows)" for i
      using that ih row by auto
    have part4: "(i, d) \<in> set tbl' \<longleftrightarrow> (i, d) \<in> set tbl" if "i \<notin> fst ` set (row # rows)" for i d
    proof -
      from that row have "i \<noteq> rid" "i \<notin> fst ` set rows" by auto
      with ih have "(i, d) \<in> set tbl' \<longleftrightarrow> (i, d) \<in> set tbl1" by blast
      with \<open>i \<noteq> rid\<close> show ?thesis unfolding tbl1 in_updated_rows by simp
    qed
    from res part2 part3 part4 show ?thesis by blast
  qed
qed

lemma migrate_rows_total:
  assumes "\<forall>row\<in>set rows. \<exists>desc. parse_description env (snd row) = Inr desc"
    and "\<forall>rid s. db_run_error env rid s = None"
    and "list_all is_resolved ups"
  shows "\<exists>rules' ups' tbl'.
           migrate_rows env rows (rules, ups, tbl) = (None, (rules', ups', tbl')) \<and>
           list_all is_resolved ups'"
  using assms
proof (induction rows arbitrary: rules ups tbl)
  case Nil
  then show ?case by simp
next
  case (Cons row rows)
  obtain rid description where row: "row = (rid, description)"
    by (cases row)
  from Cons.prems(1) row obtain desc where parse: "parse_description env description = Inr desc"
    by auto
  from Cons.prems(1) have tail: "\<forall>row\<in>set rows. \<exists>desc. parse_description env (snd row) = Inr desc"
    by simp
  show ?case
  proof (cases "migrate env desc")
    case None
    have step: "migrate_rows env (row # rows) (rules, ups, tbl) =
                  migrate_rows env rows (rules(rid \<mapsto> desc), ups, tbl)"
      using row parse None by simp
    show ?thesis
      unfolding step by (rule Cons.IH [OF tail Cons.prems(2) Cons.prems(3)])
  next
    case (Some u)
    have upd: "updateRule env rid u tbl =
                 (Resolves (), map (\<lambda>(j, c). if j = rid then (j, stringify env u) else (j, c)) tbl)"
      using Cons.prems(2) by (simp add: updateRule_def)
    have step: "migrate_rows env (row # rows) (rules, ups, tbl) =
                  migrate_rows env rows
                    (rules(rid \<mapsto> u), ups @ [Resolves ()],
                     map (\<lambda>(j, c). if j = rid then (j, stringify env u) else (j, c)) tbl)"
      using row parse Some upd by simp
    have "list_all is_resolved (ups @ [Resolves ()])"
      using Cons.prems(3) by simp
    then show ?thesis
      unfolding step by (rule Cons.IH [OF tail Cons.prems(2)])
  qed
qed

section \<open>The completion callback of register\<close>

text \<open>
  C1. The claim: whatever the collaborators answer, \<open>register\<close> invokes the completion
  callback exactly once, with nothing or with one error, and never reports both an error
  and a success.

  The handler of the second \<open>try\<close> block calls \<open>callback\<close> with the error text and does
  not return, so control reaches the final \<open>callback()\<close>. When \<open>le.register\<close> rejects
  (here with the message \<open>rate limited\<close> followed by a second line), the callback is
  invoked twice: first with the error text, then with nothing.
\<close>

theorem register_acme_failure_calls_back_twice:
  "fst (register example_config acme_fails_env ''user@example.com'' None ''mygateway''
          ''mygateway.example.com'' False empty_world) = Returned \<and>
   callbacks (trace (snd (register example_config acme_fails_env ''user@example.com'' None
          ''mygateway'' ''mygateway.example.com'' False empty_world))) =
     [ErrStr ''rate limited'', NoArg]"
  by (simp add: run_defs example_defs acme_fails_env_def)

section \<open>Writing the certificates\<close>

text \<open>
  C2, as claimed: a call of \<open>writeCertificates\<close> leaves all three artifacts holding the
  new certificates or leaves all three unchanged. It fails when the second write
  throws: \<open>certificate.pem\<close> is new, \<open>privatekey.pem\<close> is old.
\<close>

theorem writeCertificates_not_atomic:
  "fst (writeCertificates example_config key_write_fails new_certificates old_world) \<noteq> None \<and>
   artifact example_config
     (snd (writeCertificates example_config key_write_fails new_certificates old_world))
     ''certificate.pem'' = Some ''new cert'' \<and>
   artifact example_config
     (snd (writeCertificates example_config key_write_fails new_certificates old_world))
     ''privatekey.pem'' = Some ''old key'' \<and>
   \<not> all_or_nothing example_config new_certificates old_world
       (snd (writeCertificates example_config key_write_fails new_certificates old_world))"
  by (simp add: writeCertificates_def writeFileSync_def path_join_def example_config_def
      key_write_fails_def new_certificates_def old_world_def all_or_nothing_def artifact_def
      emit_def)

text \<open>
  C2, amended: \<open>writeCertificates\<close> writes \<open>certificate.pem\<close>, \<open>privatekey.pem\<close> and
  \<open>chain.pem\<close> in this order from the one result object and stops at the first write
  that throws. When the three writes succeed, the three artifacts hold the new
  certificates. When a write throws, its error is thrown on, the artifacts written
  before it hold the new certificates and the artifacts after it are unchanged. No
  other file changes.
\<close>

theorem writeCertificates_in_order:
  "(write_outcome cfg dsk ''certificate.pem'' = WriteOk \<and>
    write_outcome cfg dsk ''privatekey.pem'' = WriteOk \<and>
    write_outcome cfg dsk ''chain.pem'' = WriteOk \<longrightarrow>
      fst (writeCertificates cfg dsk results w) = None \<and>
      artifact cfg (snd (writeCertificates cfg dsk results w)) ''certificate.pem'' = Some (cert results) \<and>
      artifact cfg (snd (writeCertificates cfg dsk results w)) ''privatekey.pem'' = Some (privkey results) \<and>
      artifact cfg (snd (writeCertificates cfg dsk results w)) ''chain.pem'' = Some (chain results)) \<and>
   (write_outcome cfg dsk ''certificate.pem'' = WriteFails e left \<longrightarrow>
      fst (writeCertificates cfg dsk results w) = Some e \<and>
      artifact cfg (snd (writeCertificates cfg dsk results w)) ''privatekey.pem'' =
        artifact cfg w ''privatekey.pem'' \<and>
      artifact cfg (snd (writeCertificates cfg dsk results w)) ''chain.pem'' =
        artifact cfg w ''chain.pem'') \<and>
   (write_outcome cfg dsk ''certificate.pem'' = WriteOk \<and>
    write_outcome cfg dsk ''privatekey.pem'' = WriteFails e left \<longrightarrow>
      fst (writeCertificates cfg dsk results w) = Some e \<and>
      artifact cfg (snd (writeCertificates cfg dsk results w)) ''certificate.pem'' = Some (cert results) \<and>
      artifact cfg (snd (writeCertificates cfg dsk results w)) ''chain.pem'' =
        artifact cfg w ''chain.pem'') \<and>
   (write_outcome cfg dsk ''certificate.pem'' = WriteOk \<and>
    write_outcome cfg dsk ''privatekey.pem'' = WriteOk \<and>
    write_outcome cfg dsk ''chain.pem'' = WriteFails e left \<longrightarrow>
      fst (writeCertificates cfg dsk results w) = Some e \<and>
      artifact cfg (snd (writeCertificates cfg dsk results w)) ''certificate.pem'' = Some (cert results) \<and>
      artifact cfg (snd (writeCertificates cfg dsk results w)) ''privatekey.pem'' = Some (privkey results)) \<and>
   (\<forall>p. p \<noteq> path_join (sslDir cfg) ''certificate.pem'' \<and>
        p \<noteq> path_join (sslDir cfg) ''privatekey.pem'' \<and>
        p \<noteq> path_join (sslDir cfg) ''chain.pem'' \<longrightarrow>
        files (snd (writeCertificates cfg dsk results w)) p = files w p)"
  by (auto simp: writeCertificates_def writeFileSync_def write_outcome_def artifact_def Let_def
      split: write_result.splits option.splits)

theorem writeCertificates_in_order_witness:
  "write_outcome example_config key_write_fails ''certificate.pem'' = WriteOk \<and>
   write_outcome example_config key_write_fails ''privatekey.pem'' =
     WriteFails \<lparr>detail = None, message = Some ''EACCES: permission denied''\<rparr> None \<and>
   fst (writeCertificates example_config key_write_fails new_certificates old_world) =
     Some \<lparr>detail = None, message = Some ''EACCES: permission denied''\<rparr> \<and>
   artifact example_config
     (snd (writeCertificates example_config key_write_fails new_certificates old_world))
     ''certificate.pem'' = Some ''new cert'' \<and>
   artifact example_config
     (snd (writeCertificates example_config key_write_fails new_certificates old_world))
     ''chain.pem'' = Some ''old chain''"
  using writeCertificates_in_order [where cfg = example_config and dsk = key_write_fails
      and e = "\<lparr>detail = None, message = Some ''EACCES: permission denied''\<rparr>" and left = None
      and results = new_certificates and w = old_world]
  by (simp add: write_outcome_def key_write_fails_def example_config_def path_join_def
      new_certificates_def old_world_def artifact_def)

section \<open>renew without a token\<close>

text \<open>
  C4. When \<open>Settings.get\<close> rejects, \<open>renew\<close> returns after one \<open>console.error\<close>: the
  only effects are the read of the setting and the log line, so there is no request to
  the registrar, no call of the ACME client and no write, and the files (and the
  settings) are as they were.
\<close>

theorem renew_without_token:
  assumes "settings_get env = Rejects e"
  shows "renew cfg env w =
           (Returned,
            w\<lparr>trace := trace w @ [SettingsGet ''tunneltoken'', LogError ''Tunnel token not set!'']\<rparr>)"
  using assms by (simp add: renew_def emit_def)

theorem renew_without_token_witness:
  "settings_get no_token_env = Rejects \<lparr>detail = None, message = Some ''Setting not found''\<rparr> \<and>
   renew example_config no_token_env old_world =
     (Returned,
      old_world\<lparr>trace := [SettingsGet ''tunneltoken'', LogError ''Tunnel token not set!'']\<rparr>)"
  using renew_without_token [of no_token_env "\<lparr>detail = None, message = Some ''Setting not found''\<rparr>"
      example_config old_world]
  by (simp add: no_token_env_def old_world_def)

section \<open>The DNS challenge publisher\<close>

text \<open>
  C10. Whatever the status code of the response to the \<open>dnsconfig\<close> request, once its
  body has been read \<open>leDnsResponse\<close> resolves with \<open>Success!\<close> and does not call the
  callback. It rejects only with the error of a request that failed or of a body that
  could not be read.
\<close>

theorem leDnsResponse_any_status:
  "(dnsconfig_response r = Resolves \<lparr>status = st, body_text = Resolves body\<rparr> \<longrightarrow>
      leDnsResponse cfg token r w =
        (Resolves ''Success!'', emit (Fetch DnsConfig (dnsconfig_url cfg token (keyAuthDigest r))) w)) \<and>
   (fst (leDnsResponse cfg token r w) = Rejects e \<longrightarrow>
      dnsconfig_response r = Rejects e \<or>
      (\<exists>res. dnsconfig_response r = Resolves res \<and> body_text res = Rejects e))"
  by (auto simp: leDnsResponse_def Let_def split: promise.splits)

theorem leDnsResponse_any_status_witness:
  "leDnsResponse example_config (Some (JStr ''abc123''))
     \<lparr>keyAuthDigest = ''digest-1'',
      dnsconfig_response = Resolves \<lparr>status = 500, body_text = Resolves ''Internal Server Error''\<rparr>\<rparr>
     empty_world =
   (Resolves ''Success!'',
    emit (Fetch DnsConfig ''https://api.example.com/dnsconfig?token=abc123&challenge=digest-1'')
      empty_world) \<and>
   fst (leDnsResponse example_config (Some (JStr ''abc123''))
     \<lparr>keyAuthDigest = ''digest-1'', dnsconfig_response = Rejects network_down\<rparr> empty_world) =
     Rejects network_down"
  using leDnsResponse_any_status [of
      "\<lparr>keyAuthDigest = ''digest-1'',
        dnsconfig_response = Resolves \<lparr>status = 500, body_text = Resolves ''Internal Server Error''\<rparr>\<rparr>"
      500 "''Internal Server Error''" example_config "Some (JStr ''abc123'')" empty_world network_down]
  by (simp add: dnsconfig_url_def example_config_def leDnsResponse_def)

section \<open>A refused subscription\<close>

text \<open>
  C3, as claimed: whenever the body of the subscribe response decodes to an object
  that contains an \<open>error\<close> field, \<open>register\<close> ends with that error and does nothing
  more. The code tests \<open>if (jsonToken.error)\<close>, the truthiness of the field and not its
  presence: with the field present and empty (\<open>{"error":"","token":"abc123"}\<close>) the
  registration goes on, stores the settings record, runs the challenge, writes the
  certificates and reports success.
\<close>

theorem register_empty_error_goes_on:
  \<open>subscribe_response empty_error_env =
     Resolves \<lparr>status = 200, body_text = Resolves ''{"error":"","token":"abc123"}''\<rparr> \<and>
   JSON_parse empty_error_env ''{"error":"","token":"abc123"}'' =
     Inr (JObj [(''error'', JStr []), (''token'', JStr ''abc123'')]) \<and>
   callbacks (trace (snd (register example_config empty_error_env ''user@example.com'' None
       ''mygateway'' ''mygateway.example.com'' False empty_world))) = [NoArg] \<and>
   settings (snd (register example_config empty_error_env ''user@example.com'' None
       ''mygateway'' ''mygateway.example.com'' False empty_world)) ''tunneltoken'' =
     Some (JObj [(''error'', JStr []), (''token'', JStr ''abc123'')]) \<and>
   fetches DnsConfig (trace (snd (register example_config empty_error_env ''user@example.com'' None
       ''mygateway'' ''mygateway.example.com'' False empty_world))) =
     [''https://api.example.com/dnsconfig?token=abc123&challenge=digest-1''] \<and>
   artifact example_config (snd (register example_config empty_error_env ''user@example.com'' None
       ''mygateway'' ''mygateway.example.com'' False empty_world)) ''certificate.pem'' =
     Some ''new cert''\<close>
  by (simp add: run_defs example_defs empty_error_env_def artifact_def)

text \<open>
  C3, amended: when the body of the subscribe response decodes to an object whose
  \<open>error\<close> field is truthy, \<open>register\<close> calls the callback once, with the value of that
  field, and returns; its only other effect is the subscribe request itself. There is
  no \<open>dnsconfig\<close> request, no ACME call, no settings record and no file written.
\<close>

theorem register_subscribe_error_stops:
  assumes "subscribe_response env = Resolves res"
    and "body_text res = Resolves body"
    and "JSON_parse env body = Inr (JObj kvs)"
    and "map_of kvs ''error'' = Some v"
    and "truthy (Some v)"
  shows "register cfg env email reclamationToken subdomain fulldomain optout w =
           (Returned,
            w\<lparr>trace := trace w @
                 [Fetch Subscribe (subscribe_url cfg email reclamationToken subdomain),
                  Callback (ErrJson v)]\<rparr>)"
  using assms by (simp add: register_def subscribe_def callback_with_def emit_def)

theorem register_subscribe_error_stops_witness:
  \<open>subscribe_response name_taken_env =
     Resolves \<lparr>status = 200, body_text = Resolves ''{"error":"name taken"}''\<rparr> \<and>
   JSON_parse name_taken_env ''{"error":"name taken"}'' = Inr (JObj [(''error'', JStr ''name taken'')]) \<and>
   truthy (Some (JStr ''name taken'')) \<and>
   register example_config name_taken_env ''user@example.com'' None ''mygateway''
       ''mygateway.example.com'' False old_world =
     (Returned,
      old_world\<lparr>trace :=
        [Fetch Subscribe ''https://api.example.com/subscribe?name=mygateway&email=user@example.com'',
         Callback (ErrJson (JStr ''name taken''))]\<rparr>)\<close>
  using register_subscribe_error_stops [where env = name_taken_env and cfg = example_config
      and res = \<open>\<lparr>status = 200, body_text = Resolves ''{"error":"name taken"}''\<rparr>\<close>
      and body = \<open>''{"error":"name taken"}''\<close> and kvs = "[(''error'', JStr ''name taken'')]"
      and v = "JStr ''name taken''" and email = "''user@example.com''"
      and reclamationToken = None and subdomain = "''mygateway''"
      and fulldomain = "''mygateway.example.com''" and optout = False and w = old_world]
  by (simp add: name_taken_env_def example_defs subscribe_url_def old_world_def)

section \<open>Reclaimed subdomains\<close>

text \<open>
  C5. When a non-empty reclamation token is passed, \<open>register\<close> sends no \<open>setemail\<close>
  request, whatever the collaborators answer: the requests of that call site are the
  same after the call as before it.
\<close>

theorem register_reclaimed_never_sets_email:
  assumes "truthy_string reclamationToken"
  shows "fetches SetEmail
           (trace (snd (register cfg env email reclamationToken subdomain fulldomain optout w))) =
         fetches SetEmail (trace w)"
proof (cases "subscribe cfg env email reclamationToken subdomain w")
  case (Pair st w1)
  have sub: "fetches SetEmail (trace w1) = fetches SetEmail (trace w)"
    using subscribe_fetches [of SetEmail cfg env email reclamationToken subdomain w] Pair by simp
  show ?thesis
  proof (cases st)
    case None
    with Pair sub show ?thesis by (simp add: register_snd)
  next
    case (Some token)
    obtain fl w2 where ias:
      "issue_and_store cfg env token email reclamationToken fulldomain optout w1 = (fl, w2)"
      by (cases "issue_and_store cfg env token email reclamationToken fulldomain optout w1")
    have "fetches SetEmail (trace w2) = fetches SetEmail (trace w1)"
      using issue_and_store_no_setemail [OF assms, of cfg env token email fulldomain optout w1] ias
      by simp
    with Pair Some ias sub show ?thesis
      by (cases fl) (simp_all add: register_snd)
  qed
qed

theorem register_reclaimed_never_sets_email_witness:
  "truthy_string (Some ''reclaim-1'') \<and>
   fst (register example_config all_ok_env ''user@example.com'' (Some ''reclaim-1'') ''mygateway''
          ''mygateway.example.com'' False empty_world) = Returned \<and>
   fetches SetEmail (trace (snd (register example_config all_ok_env ''user@example.com''
          (Some ''reclaim-1'') ''mygateway'' ''mygateway.example.com'' False empty_world))) = []"
proof -
  have "fst (register example_config all_ok_env ''user@example.com'' (Some ''reclaim-1'')
          ''mygateway'' ''mygateway.example.com'' False empty_world) = Returned"
    by (simp add: run_defs example_defs)
  then show ?thesis
    using register_reclaimed_never_sets_email [where reclamationToken = "Some ''reclaim-1''"
        and cfg = example_config and env = all_ok_env and email = "''user@example.com''"
        and subdomain = "''mygateway''" and fulldomain = "''mygateway.example.com''"
        and optout = False and w = empty_world]
    by (simp add: empty_world_def)
qed

section \<open>A failed email association\<close>

text \<open>
  C6. When \<open>register\<close> reaches the \<open>setemail\<close> request (no reclamation token, the
  subscribe step went through, the ACME client resolved and the three writes
  succeeded) and that request fails with \<open>e\<close>, the last call of the callback carries
  \<open>e\<close>, no call of the callback reports success, and the three artifacts hold the
  certificates issued in this call.
\<close>

theorem register_setemail_failure_keeps_certificates:
  assumes "\<not> truthy_string reclamationToken"
    and "subscribe cfg env email reclamationToken subdomain w = (Some token, w1)"
    and "acme_result env = Resolves results"
    and "write_outcome cfg (disk env) ''certificate.pem'' = WriteOk"
    and "write_outcome cfg (disk env) ''privatekey.pem'' = WriteOk"
    and "write_outcome cfg (disk env) ''chain.pem'' = WriteOk"
    and "setemail_response env = Rejects e"
  shows "fst (register cfg env email reclamationToken subdomain fulldomain optout w) = Returned \<and>
         (\<exists>cbs. callbacks
                  (trace (snd (register cfg env email reclamationToken subdomain fulldomain optout w))) =
                callbacks (trace w) @ cbs @ [ErrObj e] \<and>
                NoArg \<notin> set cbs) \<and>
         artifact cfg (snd (register cfg env email reclamationToken subdomain fulldomain optout w))
           ''certificate.pem'' = Some (cert results) \<and>
         artifact cfg (snd (register cfg env email reclamationToken subdomain fulldomain optout w))
           ''privatekey.pem'' = Some (privkey results) \<and>
         artifact cfg (snd (register cfg env email reclamationToken subdomain fulldomain optout w))
           ''chain.pem'' = Some (chain results)"
proof -
  let ?w2 = "challenge_rounds cfg token (acme_rounds env)
               (emit (AcmeRegister fulldomain (certemail cfg) Dns01) w1)"
  have acme: "le_register_dns cfg env token fulldomain w1 = (Resolves results, ?w2)"
    using assms(3) by (simp add: le_register_dns_def)
  obtain w3 where wr: "writeCertificates cfg (disk env) results ?w2 = (None, w3)"
    and w3: "w3 = ?w2\<lparr>files := (files ?w2)
                 (path_join (sslDir cfg) ''certificate.pem'' \<mapsto> cert results,
                  path_join (sslDir cfg) ''privatekey.pem'' \<mapsto> privkey results,
                  path_join (sslDir cfg) ''chain.pem'' \<mapsto> chain results),
              trace := trace ?w2 @
                 [WriteFile (path_join (sslDir cfg) ''certificate.pem'') (cert results),
                  WriteFile (path_join (sslDir cfg) ''privatekey.pem'') (privkey results),
                  WriteFile (path_join (sslDir cfg) ''chain.pem'') (chain results)]\<rparr>"
    using writeCertificates_ok [OF assms(4-6), of results ?w2] by simp
  let ?w4 = "emit (Callback (ErrObj e))
               (emit (LogError ''Failed to set email on server:'')
                  (emit (Fetch SetEmail (setemail_url cfg token email optout)) w3))"
  have ias: "issue_and_store cfg env token email reclamationToken fulldomain optout w1 =
               (Return, ?w4)"
    using assms(1,7) acme wr by (simp add: issue_and_store_def associate_email_def)
  have reg: "register cfg env email reclamationToken subdomain fulldomain optout w = (Returned, ?w4)"
    using assms(2) ias by (simp add: register_def)
  have cbs: "callbacks (trace ?w4) =
               callbacks (trace w) @
               callbacks (concat (map (round_events cfg token) (acme_rounds env))) @ [ErrObj e]"
    by (simp add: w3 challenge_rounds_world subscribe_Some(2) [OF assms(2)])
  have "\<exists>cbs. callbacks (trace ?w4) = callbacks (trace w) @ cbs @ [ErrObj e] \<and> NoArg \<notin> set cbs"
    using cbs rounds_callbacks by blast
  then show ?thesis
    unfolding reg by (simp add: w3 challenge_rounds_world artifact_def)
qed

theorem register_setemail_failure_keeps_certificates_witness:
  "\<not> truthy_string None \<and>
   fst (subscribe example_config setemail_fails_env ''user@example.com'' None ''mygateway''
          empty_world) = Some (Some (JStr ''abc123'')) \<and>
   setemail_response setemail_fails_env = Rejects network_down \<and>
   fst (register example_config setemail_fails_env ''user@example.com'' None ''mygateway''
          ''mygateway.example.com'' False empty_world) = Returned \<and>
   callbacks (trace (snd (register example_config setemail_fails_env ''user@example.com'' None
          ''mygateway'' ''mygateway.example.com'' False empty_world))) = [ErrObj network_down] \<and>
   artifact example_config (snd (register example_config setemail_fails_env ''user@example.com''
          None ''mygateway'' ''mygateway.example.com'' False empty_world)) ''certificate.pem'' =
     Some ''new cert'' \<and>
   artifact example_config (snd (register example_config setemail_fails_env ''user@example.com''
          None ''mygateway'' ''mygateway.example.com'' False empty_world)) ''privatekey.pem'' =
     Some ''new key'' \<and>
   artifact example_config (snd (register example_config setemail_fails_env ''user@example.com''
          None ''mygateway'' ''mygateway.example.com'' False empty_world)) ''chain.pem'' =
     Some ''new chain''"
proof -
  have h1: "\<not> truthy_string None"
    by simp
  have h2: "fst (subscribe example_config setemail_fails_env ''user@example.com'' None ''mygateway''
               empty_world) = Some (Some (JStr ''abc123''))"
    by (simp add: run_defs example_defs setemail_fails_env_def)
  have sub: "subscribe example_config setemail_fails_env ''user@example.com'' None ''mygateway''
               empty_world =
             (Some (Some (JStr ''abc123'')),
              snd (subscribe example_config setemail_fails_env ''user@example.com'' None
                     ''mygateway'' empty_world))"
    using h2 by (simp add: prod_eq_iff)
  have h3: "acme_result setemail_fails_env = Resolves new_certificates"
    and h4: "write_outcome example_config (disk setemail_fails_env) ''certificate.pem'' = WriteOk"
    and h5: "write_outcome example_config (disk setemail_fails_env) ''privatekey.pem'' = WriteOk"
    and h6: "write_outcome example_config (disk setemail_fails_env) ''chain.pem'' = WriteOk"
    and h7: "setemail_response setemail_fails_env = Rejects network_down"
    by (simp_all add: setemail_fails_env_def all_ok_env_def write_outcome_def disk_ok_def)
  note main =
    register_setemail_failure_keeps_certificates [OF h1 sub h3 h4 h5 h6 h7,
      of "''mygateway.example.com''" False]
  have cb: "callbacks (trace (snd (register example_config setemail_fails_env ''user@example.com''
          None ''mygateway'' ''mygateway.example.com'' False empty_world))) = [ErrObj network_down]"
    by (simp add: run_defs example_defs setemail_fails_env_def)
  show ?thesis
    using main h2 h7 cb by (simp add: new_certificates_def)
qed

section \<open>A successful registration\<close>

text \<open>
  C7, as claimed: after a registration without reclamation token in which every
  collaborator succeeds, the persisted \<open>tunneltoken\<close> record has a \<open>name\<close> field equal
  to the requested subdomain. The code stores the decoded subscribe response as it
  is and never writes the subdomain into it: when the registrar answers
  \<open>{"token":"abc123"}\<close>, the stored record has no \<open>name\<close>.
\<close>

theorem register_persists_response_as_sent:
  "fst (register example_config all_ok_env ''user@example.com'' None ''mygateway''
          ''mygateway.example.com'' False empty_world) = Returned \<and>
   callbacks (trace (snd (register example_config all_ok_env ''user@example.com'' None
          ''mygateway'' ''mygateway.example.com'' False empty_world))) = [NoArg] \<and>
   settings (snd (register example_config all_ok_env ''user@example.com'' None ''mygateway''
          ''mygateway.example.com'' False empty_world)) ''tunneltoken'' =
     Some (JObj [(''token'', JStr ''abc123'')]) \<and>
   get_prop (settings (snd (register example_config all_ok_env ''user@example.com'' None
          ''mygateway'' ''mygateway.example.com'' False empty_world)) ''tunneltoken'') ''name'' \<noteq>
     Inr (Some (JStr ''mygateway''))"
  by (simp add: run_defs example_defs)

text \<open>
  C7, amended: after a registration without reclamation token in which every
  collaborator succeeds, the persisted \<open>tunneltoken\<close> record is the decoded subscribe
  response itself (so its \<open>name\<close> is the one the registrar sent, if it sent one), the
  three artifacts hold the one result of the ACME client, the \<open>setemail\<close> request is
  sent exactly once, and the callback is called once, with nothing.
\<close>

theorem register_success:
  assumes "\<not> truthy_string reclamationToken"
    and "subscribe_response env = Resolves res"
    and "body_text res = Resolves body"
    and "JSON_parse env body = Inr jsonToken"
    and "get_prop (Some jsonToken) ''error'' = Inr err"
    and "\<not> truthy err"
    and "get_prop (Some jsonToken) ''token'' = Inr token"
    and "settings_set env = Resolves ()"
    and "list_all round_ok (acme_rounds env)"
    and "acme_result env = Resolves results"
    and "write_outcome cfg (disk env) ''certificate.pem'' = WriteOk"
    and "write_outcome cfg (disk env) ''privatekey.pem'' = WriteOk"
    and "write_outcome cfg (disk env) ''chain.pem'' = WriteOk"
    and "setemail_response env = Resolves res'"
  shows "fst (register cfg env email reclamationToken subdomain fulldomain optout w) = Returned \<and>
         settings (snd (register cfg env email reclamationToken subdomain fulldomain optout w))
           ''tunneltoken'' = Some jsonToken \<and>
         artifact cfg (snd (register cfg env email reclamationToken subdomain fulldomain optout w))
           ''certificate.pem'' = Some (cert results) \<and>
         artifact cfg (snd (register cfg env email reclamationToken subdomain fulldomain optout w))
           ''privatekey.pem'' = Some (privkey results) \<and>
         artifact cfg (snd (register cfg env email reclamationToken subdomain fulldomain optout w))
           ''chain.pem'' = Some (chain results) \<and>
         trace (snd (register cfg env email reclamationToken subdomain fulldomain optout w)) =
           trace w @
           [Fetch Subscribe (subscribe_url cfg email reclamationToken subdomain),
            SettingsSet ''tunneltoken'' jsonToken,
            AcmeRegister fulldomain (certemail cfg) Dns01] @
           map (\<lambda>r. Fetch DnsConfig (dnsconfig_url cfg token (keyAuthDigest r))) (acme_rounds env) @
           [WriteFile (path_join (sslDir cfg) ''certificate.pem'') (cert results),
            WriteFile (path_join (sslDir cfg) ''privatekey.pem'') (privkey results),
            WriteFile (path_join (sslDir cfg) ''chain.pem'') (chain results),
            Fetch SetEmail (setemail_url cfg token email optout),
            Callback NoArg]"
proof -
  let ?w1 = "(emit (SettingsSet ''tunneltoken'' jsonToken)
               (emit (Fetch Subscribe (subscribe_url cfg email reclamationToken subdomain)) w))
             \<lparr>settings := (settings w)(''tunneltoken'' \<mapsto> jsonToken)\<rparr>"
  have sub: "subscribe cfg env email reclamationToken subdomain w = (Some token, ?w1)"
    using assms(2-8) by (simp add: subscribe_def)
  let ?w2 = "challenge_rounds cfg token (acme_rounds env)
               (emit (AcmeRegister fulldomain (certemail cfg) Dns01) ?w1)"
  have acme: "le_register_dns cfg env token fulldomain ?w1 = (Resolves results, ?w2)"
    using assms(10) by (simp add: le_register_dns_def)
  obtain w3 where wr: "writeCertificates cfg (disk env) results ?w2 = (None, w3)"
    and w3: "w3 = ?w2\<lparr>files := (files ?w2)
                 (path_join (sslDir cfg) ''certificate.pem'' \<mapsto> cert results,
                  path_join (sslDir cfg) ''privatekey.pem'' \<mapsto> privkey results,
                  path_join (sslDir cfg) ''chain.pem'' \<mapsto> chain results),
              trace := trace ?w2 @
                 [WriteFile (path_join (sslDir cfg) ''certificate.pem'') (cert results),
                  WriteFile (path_join (sslDir cfg) ''privatekey.pem'') (privkey results),
                  WriteFile (path_join (sslDir cfg) ''chain.pem'') (chain results)]\<rparr>"
    using writeCertificates_ok [OF assms(11-13), of results ?w2] by simp
  have ias: "issue_and_store cfg env token email reclamationToken fulldomain optout ?w1 =
               (Continue, emit (Fetch SetEmail (setemail_url cfg token email optout)) w3)"
    using assms(1,14) acme wr by (simp add: issue_and_store_def associate_email_def)
  have reg: "register cfg env email reclamationToken subdomain fulldomain optout w =
               (Returned,
                emit (Callback NoArg) (emit (Fetch SetEmail (setemail_url cfg token email optout)) w3))"
    using sub ias by (simp add: register_def)
  show ?thesis
    unfolding reg
    by (simp add: w3 challenge_rounds_world rounds_ok [OF assms(9)] artifact_def)
qed

theorem register_success_witness:
  \<open>\<not> truthy_string None \<and>
   JSON_parse all_ok_env ''{"token":"abc123"}'' = Inr (JObj [(''token'', JStr ''abc123'')]) \<and>
   list_all round_ok (acme_rounds all_ok_env) \<and>
   fst (register example_config all_ok_env ''user@example.com'' None ''mygateway''
          ''mygateway.example.com'' False empty_world) = Returned \<and>
   settings (snd (register example_config all_ok_env ''user@example.com'' None ''mygateway''
          ''mygateway.example.com'' False empty_world)) ''tunneltoken'' =
     Some (JObj [(''token'', JStr ''abc123'')]) \<and>
   artifact example_config (snd (register example_config all_ok_env ''user@example.com'' None
          ''mygateway'' ''mygateway.example.com'' False empty_world)) ''privatekey.pem'' =
     Some ''new key'' \<and>
   trace (snd (register example_config all_ok_env ''user@example.com'' None ''mygateway''
          ''mygateway.example.com'' False empty_world)) =
     [Fetch Subscribe ''https://api.example.com/subscribe?name=mygateway&email=user@example.com'',
      SettingsSet ''tunneltoken'' (JObj [(''token'', JStr ''abc123'')]),
      AcmeRegister ''mygateway.example.com'' ''certs@example.com'' Dns01,
      Fetch DnsConfig ''https://api.example.com/dnsconfig?token=abc123&challenge=digest-1'',
      WriteFile ''/ssl/certificate.pem'' ''new cert'',
      WriteFile ''/ssl/privatekey.pem'' ''new key'',
      WriteFile ''/ssl/chain.pem'' ''new chain'',
      Fetch SetEmail
        ''https://api.example.com/setemail?token=abc123&email=user@example.com&optout=false'',
      Callback NoArg]\<close>
  using register_success [where env = all_ok_env and cfg = example_config
      and reclamationToken = None
      and res = \<open>\<lparr>status = 200, body_text = Resolves ''{"token":"abc123"}''\<rparr>\<close>
      and body = \<open>''{"token":"abc123"}''\<close> and jsonToken = "JObj [(''token'', JStr ''abc123'')]"
      and err = None and token = "Some (JStr ''abc123'')" and results = new_certificates
      and res' = "\<lparr>status = 200, body_text = Resolves []\<rparr>"
      and email = "''user@example.com''" and subdomain = "''mygateway''"
      and fulldomain = "''mygateway.example.com''" and optout = False and w = empty_world]
  by (simp add: example_defs write_outcome_def round_ok_def subscribe_url_def dnsconfig_url_def
      setemail_url_def path_join_def)

section \<open>The digest sent to the registrar\<close>

text \<open>
  C8. Once the subscribe step has yielded the token, the \<open>dnsconfig\<close> requests of
  \<open>register\<close> are one per challenge round, in order, and the URL of each is a prefix
  that does not depend on the round, ending in \<open>&challenge=\<close>, followed by the
  \<open>keyAuthDigest\<close> of the round as the ACME client supplied it.
\<close>

theorem register_dns_challenge_is_digest:
  assumes "subscribe cfg env email reclamationToken subdomain w = (Some token, w1)"
  shows "fetches DnsConfig
           (trace (snd (register cfg env email reclamationToken subdomain fulldomain optout w))) =
         fetches DnsConfig (trace w) @
         map (\<lambda>r. (registration_endpoint cfg @ ''/dnsconfig?token='' @ template token @
                    ''&challenge='') @ keyAuthDigest r)
           (acme_rounds env)"
proof -
  have sub: "fetches DnsConfig (trace w1) = fetches DnsConfig (trace w)"
    using subscribe_fetches [of DnsConfig cfg env email reclamationToken subdomain w] assms by simp
  obtain fl w2 where ias:
    "issue_and_store cfg env token email reclamationToken fulldomain optout w1 = (fl, w2)"
    by (cases "issue_and_store cfg env token email reclamationToken fulldomain optout w1")
  have "fetches DnsConfig (trace w2) =
          fetches DnsConfig (trace w1) @
          map (\<lambda>r. dnsconfig_url cfg token (keyAuthDigest r)) (acme_rounds env)"
    using issue_and_store_fetches_dns [of cfg env token email reclamationToken fulldomain optout w1]
      ias by simp
  with assms ias sub show ?thesis
    by (cases fl) (simp_all add: register_snd dnsconfig_url_def)
qed

theorem register_dns_challenge_is_digest_witness:
  "fst (subscribe example_config all_ok_env ''user@example.com'' None ''mygateway'' empty_world) =
     Some (Some (JStr ''abc123'')) \<and>
   map keyAuthDigest (acme_rounds all_ok_env) = [''digest-1''] \<and>
   fetches DnsConfig (trace (snd (register example_config all_ok_env ''user@example.com'' None
          ''mygateway'' ''mygateway.example.com'' False empty_world))) =
     [''https://api.example.com/dnsconfig?token=abc123&challenge=digest-1'']"
proof -
  have h1: "fst (subscribe example_config all_ok_env ''user@example.com'' None ''mygateway''
               empty_world) = Some (Some (JStr ''abc123''))"
    by (simp add: run_defs example_defs)
  have sub: "subscribe example_config all_ok_env ''user@example.com'' None ''mygateway''
               empty_world =
             (Some (Some (JStr ''abc123'')),
              snd (subscribe example_config all_ok_env ''user@example.com'' None ''mygateway''
                     empty_world))"
    using h1 by (simp add: prod_eq_iff)
  have h2: "map keyAuthDigest (acme_rounds all_ok_env) = [''digest-1'']"
    by (simp add: all_ok_env_def one_round_def)
  note main = register_dns_challenge_is_digest [OF sub, of "''mygateway.example.com''" False]
  have "fetches DnsConfig (trace (snd (register example_config all_ok_env ''user@example.com'' None
          ''mygateway'' ''mygateway.example.com'' False empty_world))) =
     [''https://api.example.com/dnsconfig?token=abc123&challenge=digest-1'']"
    unfolding main by (simp add: example_defs)
  with h1 h2 show ?thesis
    by simp
qed

section \<open>Reading the rules\<close>

text \<open>
  C9. For a table with distinct ids (\<open>id\<close> is the primary key): when the database
  does not fail and every stored description decodes, \<open>getRules\<close> resolves. Whenever it
  resolves, every row's id maps to the migrated description where \<open>migrate\<close> returned
  one, which the table then holds for that id (all updates have resolved before the
  promise does), and to the stored description where \<open>migrate\<close> returned nothing, the
  row being as before; no other id is mapped.
\<close>

theorem getRules_migrates_and_persists:
  assumes "distinct (map fst tbl)"
  shows "(db_all_error env = None \<and>
          (\<forall>row\<in>set tbl. \<exists>desc. parse_description env (snd row) = Inr desc) \<and>
          (\<forall>rid s. db_run_error env rid s = None) \<longrightarrow>
            (\<exists>rules tbl'. getRules env tbl = (Resolved rules, tbl'))) \<and>
         (\<forall>rules tbl' rid description.
            getRules env tbl = (Resolved rules, tbl') \<and> (rid, description) \<in> set tbl \<longrightarrow>
            (\<exists>desc. parse_description env description = Inr desc \<and>
               (case migrate env desc of
                  None \<Rightarrow> rules rid = Some desc \<and> (rid, description) \<in> set tbl'
                | Some updatedDesc \<Rightarrow>
                    rules rid = Some updatedDesc \<and> (rid, stringify env updatedDesc) \<in> set tbl'))) \<and>
         (\<forall>rules tbl' i. getRules env tbl = (Resolved rules, tbl') \<and> i \<notin> fst ` set tbl \<longrightarrow>
            rules i = None)"
proof (intro conjI impI allI)
  assume ok: "db_all_error env = None \<and>
          (\<forall>row\<in>set tbl. \<exists>desc. parse_description env (snd row) = Inr desc) \<and>
          (\<forall>rid s. db_run_error env rid s = None)"
  then obtain rules' ups' tbl' where
    "migrate_rows env tbl (Map.empty, [], tbl) = (None, (rules', ups', tbl'))"
    and "list_all is_resolved ups'"
    using migrate_rows_total [of tbl env "[]" Map.empty tbl] by auto
  with ok show "\<exists>rules tbl'. getRules env tbl = (Resolved rules, tbl')"
    by (simp add: getRules_def)
next
  fix rules tbl' rid description
  assume a: "getRules env tbl = (Resolved rules, tbl') \<and> (rid, description) \<in> set tbl"
  then obtain ups' where
    run: "migrate_rows env tbl (Map.empty, [], tbl) = (None, (rules, ups', tbl'))"
    and res: "list_all is_resolved ups'"
    by (auto simp: getRules_def split: option.splits prod.splits if_splits)
  from migrate_rows_resolved [OF run res assms] a
  show "\<exists>desc. parse_description env description = Inr desc \<and>
               (case migrate env desc of
                  None \<Rightarrow> rules rid = Some desc \<and> (rid, description) \<in> set tbl'
                | Some updatedDesc \<Rightarrow>
                    rules rid = Some updatedDesc \<and> (rid, stringify env updatedDesc) \<in> set tbl')"
    by blast
next
  fix rules tbl' i
  assume a: "getRules env tbl = (Resolved rules, tbl') \<and> i \<notin> fst ` set tbl"
  then obtain ups' where
    run: "migrate_rows env tbl (Map.empty, [], tbl) = (None, (rules, ups', tbl'))"
    and res: "list_all is_resolved ups'"
    by (auto simp: getRules_def split: option.splits prod.splits if_splits)
  from migrate_rows_resolved [OF run res assms] a
  show "rules i = None"
    by simp
qed

theorem getRules_migrates_and_persists_witness:
  \<open>distinct (map fst example_rules) \<and>
   fst (getRules example_rules_env example_rules) =
     Resolved [1 \<mapsto> JObj [(''v'', JNum 2)], 2 \<mapsto> JObj [(''v'', JNum 2)]] \<and>
   snd (getRules example_rules_env example_rules) = [(1, ''{"v":2}''), (2, ''{"v":2}'')] \<and>
   (\<exists>rules tbl'. getRules example_rules_env example_rules = (Resolved rules, tbl'))\<close>
proof -
  have d: "distinct (map fst example_rules)"
    by (simp add: example_rules_def)
  have ok: "db_all_error example_rules_env = None \<and>
          (\<forall>row\<in>set example_rules.
             \<exists>desc. parse_description example_rules_env (snd row) = Inr desc) \<and>
          (\<forall>rid s. db_run_error example_rules_env rid s = None)"
    by (simp add: example_rules_env_def example_rules_def)
  have run: \<open>getRules example_rules_env example_rules =
               (Resolved [1 \<mapsto> JObj [(''v'', JNum 2)], 2 \<mapsto> JObj [(''v'', JNum 2)]],
                [(1, ''{"v":2}''), (2, ''{"v":2}'')])\<close>
    by (simp add: getRules_def updateRule_def example_rules_env_def example_rules_def)
  from getRules_migrates_and_persists [OF d, of example_rules_env] ok
  have "\<exists>rules tbl'. getRules example_rules_env example_rules = (Resolved rules, tbl')"
    by blast
  with d run show ?thesis
    by simp
qed

end
